theory Spec2Isabelle
  imports Complex_Main "HOL-Library.Sublist"
begin

section \<open>JavaScript strings\<close>

text \<open>
  A string is a list of characters, each read as one code unit in the range
  U+0000 .. U+00FF. On such strings the functions below compute what the
  JavaScript built-ins compute. The pictographs and bullet signs that open some
  user-facing messages of the source lie outside that range and are left out of
  the message constants.
\<close>

definition toLowerChar :: "char \<Rightarrow> char" where
  "toLowerChar c =
     (let n = (of_char c :: nat)
      in if (65 \<le> n \<and> n \<le> 90) \<or> (192 \<le> n \<and> n \<le> 222 \<and> n \<noteq> 215)
         then char_of (n + 32) else c)"

definition toLowerCase :: "string \<Rightarrow> string" where
  "toLowerCase s = map toLowerChar s"

text \<open>\<open>s.includes(sub)\<close>: \<open>sub\<close> occurs in \<open>s\<close> as a contiguous block.\<close>

fun includesStr :: "string \<Rightarrow> string \<Rightarrow> bool" where
  "includesStr [] sub = (sub = [])"
| "includesStr (c # cs) sub = (prefix sub (c # cs) \<or> includesStr cs sub)"

definition startsWith :: "string \<Rightarrow> string \<Rightarrow> bool" where
  "startsWith s p = prefix p s"

text \<open>The character class \<open>\s\<close> of a regular expression, and \<open>\d\<close>.\<close>

definition isSpace :: "char \<Rightarrow> bool" where
  "isSpace c = ((of_char c :: nat) \<in> {9, 10, 11, 12, 13, 32, 160})"

definition isDigit :: "char \<Rightarrow> bool" where
  "isDigit c = (48 \<le> (of_char c :: nat) \<and> (of_char c :: nat) \<le> 57)"

text \<open>
  \<open>text.split(/\s+/)\<close>: the pieces between maximal runs of white space. A string
  that starts or ends with white space yields an empty first or last piece, and
  the empty string yields one empty piece.
\<close>

fun split_ws :: "string \<Rightarrow> string list" where
  "split_ws [] = [[]]"
| "split_ws (c # cs) =
     (if isSpace c
      then (case cs of
              [] \<Rightarrow> [] # split_ws cs
            | d # _ \<Rightarrow> if isSpace d then split_ws cs else [] # split_ws cs)
      else (case split_ws cs of
              [] \<Rightarrow> [[c]]
            | t # ts \<Rightarrow> (c # t) # ts))"

text \<open>\<open>/^\d+$/.test(word)\<close>: one or more digits and nothing else.\<close>

definition pureNumber :: "string \<Rightarrow> bool" where
  "pureNumber w = (w \<noteq> [] \<and> list_all isDigit w)"


section \<open>utils/error-handler.ts\<close>

datatype ErrorType =
    NETWORK_ERROR
  | AUTHENTICATION_ERROR
  | VALIDATION_ERROR
  | JIRA_API_ERROR
  | OPENAI_ERROR
  | UNKNOWN_ERROR

record AppError =
  message :: string
  errType :: ErrorType
  isRetryable :: bool
  statusCode :: "int option"

text \<open>
  The argument of \<open>handleError\<close> and \<open>normalizeError\<close> has type
  \<open>Error | AppError\<close>: a plain error carries its message only.
\<close>

datatype JsError = PlainError string | Classified AppError

definition mkAppError :: "string \<Rightarrow> ErrorType \<Rightarrow> bool \<Rightarrow> AppError" where
  "mkAppError m t r = \<lparr>message = m, errType = t, isRetryable = r, statusCode = None\<rparr>"

definition normalizeError :: "JsError \<Rightarrow> AppError" where
  "normalizeError error =
     (case error of
        Classified a \<Rightarrow> a
      | PlainError msg \<Rightarrow>
          (let m = toLowerCase msg in
           if includesStr m ''econnrefused'' \<or> includesStr m ''enotfound'' \<or> includesStr m ''timeout''
           then mkAppError
                  ''Network connection failed. Please check your internet connection and try again.''
                  NETWORK_ERROR True
           else if includesStr m ''401'' \<or> includesStr m ''unauthorized'' \<or> includesStr m ''invalid api key''
           then mkAppError
                  ''Authentication failed. Please check your API credentials in the .env file.''
                  AUTHENTICATION_ERROR False
           else if includesStr m ''400'' \<or> includesStr m ''404'' \<or> includesStr m ''403''
           then mkAppError
                  ''Jira API error. Please check your project permissions and try again.''
                  JIRA_API_ERROR True
           else if includesStr m ''openai'' \<or> includesStr m ''gpt''
           then mkAppError
                  ''OpenAI API error. Please check your API key and quota.''
                  OPENAI_ERROR True
           else mkAppError
                  (if msg = [] then ''An unexpected error occurred.'' else msg)
                  UNKNOWN_ERROR True))"

text \<open>
  The state of an \<open>ErrorHandler\<close>: the map \<open>retryAttempts\<close> from context labels to
  attempt counts, and the number of retry prompts put to the user so far. The
  latter is not a field of the class; it records the terminal dialogue, so that
  the answer to the k-th prompt can be looked up and prompts can be counted.
  What the handler prints is not modelled, nor is the time it sleeps before a
  retry.
\<close>

record ErrorHandler =
  retryAttempts :: "string \<rightharpoonup> nat"
  prompts :: nat

definition maxRetries :: nat where
  "maxRetries = 3"

definition newErrorHandler :: ErrorHandler where
  "newErrorHandler = \<lparr>retryAttempts = Map.empty, prompts = 0\<rparr>"

text \<open>\<open>this.retryAttempts.get(context) || 0\<close>\<close>

definition attemptsOf :: "ErrorHandler \<Rightarrow> string \<Rightarrow> nat" where
  "attemptsOf h context = (case retryAttempts h context of None \<Rightarrow> 0 | Some n \<Rightarrow> n)"

definition shouldRetry :: "ErrorHandler \<Rightarrow> string \<Rightarrow> bool" where
  "shouldRetry h context = (attemptsOf h context < maxRetries)"

text \<open>
  \<open>promptForRetry\<close>: \<open>answers k\<close> is what the user types at the k-th prompt
  (counted from 0).
\<close>

definition promptForRetry :: "(nat \<Rightarrow> string) \<Rightarrow> ErrorHandler \<Rightarrow> string \<Rightarrow> bool \<times> ErrorHandler" where
  "promptForRetry answers h context =
     (let attempts = attemptsOf h context;
          response = answers (prompts h);
          h1 = h\<lparr>retryAttempts := (retryAttempts h)(context \<mapsto> attempts + 1),
                 prompts := prompts h + 1\<rparr>
      in if startsWith (toLowerCase response) ''y''
         then (True, h1)
         else (False, h1\<lparr>retryAttempts := (retryAttempts h1)(context := None)\<rparr>))"

text \<open>\<open>context || 'default'\<close> for the optional parameter \<open>context\<close>.\<close>

definition contextOrDefault :: "string option \<Rightarrow> string" where
  "contextOrDefault context =
     (case context of None \<Rightarrow> ''default'' | Some c \<Rightarrow> if c = [] then ''default'' else c)"

definition handleError ::
  "(nat \<Rightarrow> string) \<Rightarrow> ErrorHandler \<Rightarrow> JsError \<Rightarrow> string option \<Rightarrow> bool \<times> ErrorHandler" where
  "handleError answers h error context =
     (let appError = normalizeError error
      in if isRetryable appError \<and> shouldRetry h (contextOrDefault context)
         then promptForRetry answers h (contextOrDefault context)
         else (False, h))"


text \<open>
  \<open>APIWrapper.makeRequest\<close>. The operation is a zero-argument action; \<open>operation k\<close>
  is the outcome of its k-th invocation (counted from 0), \<open>Inl\<close> a thrown error.
  The loop invokes the operation once per iteration, so the iteration counter
  \<open>attempt\<close> is also the number of invocations made before. A thrown value is
  \<open>Some\<close> error, or \<open>None\<close> for \<open>undefined\<close>, the value of \<open>lastError\<close> before the
  first failure. The result carries the number of invocations made.
\<close>

function makeRequestLoop ::
  "(nat \<Rightarrow> string) \<Rightarrow> (nat \<Rightarrow> JsError + 'a) \<Rightarrow> string \<Rightarrow> nat \<Rightarrow> nat \<Rightarrow> JsError option
     \<Rightarrow> ErrorHandler \<Rightarrow> (JsError option + 'a) \<times> ErrorHandler \<times> nat" where
  "makeRequestLoop answers operation context maxR attempt lastError h =
     (if attempt \<le> maxR
      then (case operation attempt of
              Inr v \<Rightarrow> (Inr v, h, attempt + 1)
            | Inl error \<Rightarrow>
                if attempt = maxR then (Inl (Some error), h, attempt + 1)
                else (case handleError answers h error (Some context) of
                        (retry, h') \<Rightarrow>
                          if \<not> retry then (Inl (Some error), h', attempt + 1)
                          else makeRequestLoop answers operation context maxR (attempt + 1)
                                 (Some error) h'))
      else (Inl lastError, h, attempt))"
  by pat_completeness auto
termination
  by (relation "measure (\<lambda>(answers, operation, context, maxR, attempt, lastError, h).
                  Suc maxR - attempt)") auto

definition makeRequest ::
  "(nat \<Rightarrow> string) \<Rightarrow> ErrorHandler \<Rightarrow> (nat \<Rightarrow> JsError + 'a) \<Rightarrow> string \<Rightarrow> nat
     \<Rightarrow> (JsError option + 'a) \<times> ErrorHandler \<times> nat" where
  "makeRequest answers h operation context maxR =
     makeRequestLoop answers operation context maxR 0 None h"


section \<open>JavaScript numbers and parsed JSON\<close>

text \<open>
  A number is \<open>NaN\<close>, an infinity, or a finite double, modelled by the real number
  it denotes. The source only compares numbers, takes minima and maxima and
  subtracts to obtain a sign; on doubles these agree with the operations on the
  reals they denote. The literals \<open>0.6\<close> and \<open>0.8\<close> denote the doubles nearest to
  6/10 and 8/10, and no double lies between such a literal and the decimal
  fraction, so a comparison of a double with the literal and with the fraction
  give the same answer.
\<close>

datatype number = NaN | NegInf | Fin real | PosInf

text \<open>\<open>a > b\<close> and \<open>a <= b\<close>\<close>

fun gt :: "number \<Rightarrow> number \<Rightarrow> bool" where
  "gt NaN b = False"
| "gt a NaN = False"
| "gt NegInf b = False"
| "gt (Fin x) NegInf = True"
| "gt (Fin x) (Fin y) = (y < x)"
| "gt (Fin x) PosInf = False"
| "gt PosInf PosInf = False"
| "gt PosInf b = True"

fun le :: "number \<Rightarrow> number \<Rightarrow> bool" where
  "le NaN b = False"
| "le a NaN = False"
| "le a b = (\<not> gt a b)"

text \<open>\<open>Math.max(a, b)\<close> and \<open>Math.min(a, b)\<close>\<close>

fun Math_max :: "number \<Rightarrow> number \<Rightarrow> number" where
  "Math_max NaN b = NaN"
| "Math_max a NaN = NaN"
| "Math_max a b = (if gt a b then a else b)"

fun Math_min :: "number \<Rightarrow> number \<Rightarrow> number" where
  "Math_min NaN b = NaN"
| "Math_min a NaN = NaN"
| "Math_min a b = (if gt a b then b else a)"

text \<open>\<open>a - b\<close>\<close>

fun minus_number :: "number \<Rightarrow> number \<Rightarrow> number" where
  "minus_number NaN b = NaN"
| "minus_number a NaN = NaN"
| "minus_number (Fin x) (Fin y) = Fin (x - y)"
| "minus_number (Fin x) PosInf = NegInf"
| "minus_number (Fin x) NegInf = PosInf"
| "minus_number PosInf PosInf = NaN"
| "minus_number PosInf b = PosInf"
| "minus_number NegInf NegInf = NaN"
| "minus_number NegInf b = NegInf"

text \<open>
  \<open>Array.prototype.sort(comparefn)\<close> is a stable sort: \<open>x\<close> stays before \<open>y\<close>
  unless \<open>comparefn(x, y) > 0\<close>. It is modelled by insertion from the right.
\<close>

fun insertBy :: "('a \<Rightarrow> 'a \<Rightarrow> number) \<Rightarrow> 'a \<Rightarrow> 'a list \<Rightarrow> 'a list" where
  "insertBy cmp x [] = [x]"
| "insertBy cmp x (y # ys) =
     (if gt (cmp x y) (Fin 0) then y # insertBy cmp x ys else x # y # ys)"

definition sortBy :: "('a \<Rightarrow> 'a \<Rightarrow> number) \<Rightarrow> 'a list \<Rightarrow> 'a list" where
  "sortBy cmp xs = foldr (insertBy cmp) xs []"

text \<open>
  The value \<open>JSON.parse\<close> returns. The property list of an object holds each name
  once.
\<close>

datatype json =
    JNull
  | JBool bool
  | JNum number
  | JStr string
  | JArr "json list"
  | JObj "(string \<times> json) list"

text \<open>Whether a value counts as true in \<open>v || d\<close> and \<open>!v\<close>.\<close>

fun truthy :: "json \<Rightarrow> bool" where
  "truthy JNull = False"
| "truthy (JBool b) = b"
| "truthy (JNum n) = (n \<noteq> NaN \<and> n \<noteq> Fin 0)"
| "truthy (JStr s) = (s \<noteq> [])"
| "truthy (JArr xs) = True"
| "truthy (JObj kvs) = True"

text \<open>
  \<open>a.name\<close> for a value other than \<open>null\<close> and a name that is not a built-in
  property (the source reads \<open>issueIndex\<close>, \<open>similarity\<close> and \<open>reason\<close>):
  \<open>None\<close> is \<open>undefined\<close>. Reading a property of \<open>null\<close> throws; the callers
  test for \<open>JNull\<close> first.
\<close>

fun getProp :: "json \<Rightarrow> string \<Rightarrow> json option" where
  "getProp (JObj kvs) name = map_of kvs name"
| "getProp v name = None"

text \<open>\<open>x || d\<close> where \<open>x\<close> may be \<open>undefined\<close>\<close>

definition orElse :: "json option \<Rightarrow> json \<Rightarrow> json" where
  "orElse x d = (case x of None \<Rightarrow> d | Some v \<Rightarrow> if truthy v then v else d)"

text \<open>
  The conversion to a number that \<open>Math.max\<close> applies to its argument. On strings,
  arrays and objects it goes through the language's string-to-number grammar,
  which is passed in as \<open>coerce\<close>.
\<close>

fun ToNumber :: "(json \<Rightarrow> number) \<Rightarrow> json \<Rightarrow> number" where
  "ToNumber coerce (JNum n) = n"
| "ToNumber coerce (JBool b) = (if b then Fin 1 else Fin 0)"
| "ToNumber coerce JNull = Fin 0"
| "ToNumber coerce v = coerce v"


section \<open>features/duplicate-detection.ts\<close>

text \<open>
  A candidate record as the tracker gateway returns it. The source reads
  \<open>issue.key\<close>, \<open>issue.fields.summary\<close>, \<open>issue.fields.description\<close>,
  \<open>issue.fields.status.name\<close> and \<open>issue.fields.priority?.name\<close>; the description
  and the priority may be absent.
\<close>

record JiraIssue =
  issue_key :: string
  fields_summary :: string
  fields_description :: "string option"
  fields_status_name :: string
  fields_priority_name :: "string option"

text \<open>
  \<open>reason\<close> holds whatever value the reply carried, which need not be a string.
\<close>

record SimilarIssue =
  key :: string
  summary :: string
  description :: string
  status :: string
  priority :: string
  similarity :: number
  reason :: json

record DuplicateAnalysis =
  hasPotentialDuplicates :: bool
  similarIssues :: "SimilarIssue list"
  recommendations :: "string list"

text \<open>\<open>x || d\<close> for an optional string\<close>

definition strOr :: "string option \<Rightarrow> string \<Rightarrow> string" where
  "strOr x d = (case x of None \<Rightarrow> d | Some s \<Rightarrow> if s = [] then d else s)"

subsection \<open>Keyword extraction\<close>

definition extractKeywordsFallback :: "string \<Rightarrow> string \<Rightarrow> string list" where
  "extractKeywordsFallback title descr =
     (let text = toLowerCase (title @ '' '' @ descr);
          words = take 5 (filter (\<lambda>word. \<not> pureNumber word)
                            (filter (\<lambda>word. length word > 3) (split_ws text)))
      in if length words > 0 then words else [''issue''])"

subsection \<open>Candidate search\<close>

text \<open>
  The outcome of one request to the gateway's search endpoint: the request or the
  decoding of its body throws, the response is not ok, or the response is ok and
  its body has the field \<open>issues\<close> or lacks it. The keywords and the query text
  only enter the request, so they do not appear here; \<open>extractKeywords\<close> catches
  every error of its own.
\<close>

datatype searchResponse = RequestFails | NotOk | OkData "JiraIssue list option"

definition issuesOrEmpty :: "JiraIssue list option \<Rightarrow> JiraIssue list" where
  "issuesOrEmpty d = (case d of None \<Rightarrow> [] | Some issues \<Rightarrow> issues)"

definition fallbackSearch :: "searchResponse \<Rightarrow> JiraIssue list" where
  "fallbackSearch response =
     (case response of
        OkData d \<Rightarrow> issuesOrEmpty d
      | NotOk \<Rightarrow> []
      | RequestFails \<Rightarrow> [])"

definition searchSimilarIssues :: "searchResponse \<Rightarrow> searchResponse \<Rightarrow> JiraIssue list" where
  "searchSimilarIssues response fallbackResponse =
     (case response of
        OkData d \<Rightarrow> issuesOrEmpty d
      | NotOk \<Rightarrow> fallbackSearch fallbackResponse
      | RequestFails \<Rightarrow> fallbackSearch fallbackResponse)"

subsection \<open>Similarity scoring\<close>

definition createFallbackSimilarity :: "JiraIssue \<Rightarrow> SimilarIssue" where
  "createFallbackSimilarity issue =
     \<lparr>key = issue_key issue,
      summary = fields_summary issue,
      description = strOr (fields_description issue) [],
      status = fields_status_name issue,
      priority = strOr (fields_priority_name issue) ''Unknown'',
      similarity = Fin (1/10),
      reason = JStr ''Unable to perform detailed analysis''\<rparr>"

text \<open>
  The outcome of one call to the generation service: the call throws, the reply
  has no content, the content is not JSON, or the content parses to a value.
\<close>

datatype completion = CallFails | NoContent | Unparsable | Parsed json

text \<open>
  \<open>analysisResults.find(a => a.issueIndex === n)\<close> on an array: \<open>None\<close> when
  reading \<open>issueIndex\<close> of a \<open>null\<close> element throws, else the first element whose
  \<open>issueIndex\<close> is the number \<open>n\<close>, or \<open>undefined\<close>.
\<close>

fun findAnalysis :: "json list \<Rightarrow> nat \<Rightarrow> json option option" where
  "findAnalysis [] n = Some None"
| "findAnalysis (a # as) n =
     (if a = JNull then None
      else if getProp a ''issueIndex'' = Some (JNum (Fin (real n))) then Some (Some a)
      else findAnalysis as n)"

text \<open>
  The callback of \<open>issueBatch.map\<close> in the inner \<open>try\<close> of \<open>analyzeBatch\<close>, for the
  candidate at position \<open>index\<close>; \<open>None\<close> when it throws.
\<close>

definition analyzeEntry ::
  "(json \<Rightarrow> number) \<Rightarrow> json list \<Rightarrow> JiraIssue \<Rightarrow> nat \<Rightarrow> SimilarIssue option" where
  "analyzeEntry coerce analysisResults issue index =
     (case findAnalysis analysisResults (index + 1) of
        None \<Rightarrow> None
      | Some found \<Rightarrow>
          (let analysis_similarity =
                 (case found of None \<Rightarrow> Some (JNum (Fin (1/10)))
                              | Some a \<Rightarrow> getProp a ''similarity'');
               analysis_reason =
                 (case found of None \<Rightarrow> Some (JStr ''Analysis failed'')
                              | Some a \<Rightarrow> getProp a ''reason'')
           in Some
                \<lparr>key = issue_key issue,
                 summary = fields_summary issue,
                 description = strOr (fields_description issue) [],
                 status = fields_status_name issue,
                 priority = strOr (fields_priority_name issue) ''Unknown'',
                 similarity =
                   Math_min
                     (Math_max (ToNumber coerce (orElse analysis_similarity (JNum (Fin 0))))
                        (Fin 0))
                     (Fin 1),
                 reason = orElse analysis_reason (JStr ''AI analysis completed'')\<rparr>))"

fun mapEntries ::
  "(json \<Rightarrow> number) \<Rightarrow> json list \<Rightarrow> JiraIssue list \<Rightarrow> nat \<Rightarrow> SimilarIssue list option" where
  "mapEntries coerce analysisResults [] index = Some []"
| "mapEntries coerce analysisResults (issue # issues) index =
     (case analyzeEntry coerce analysisResults issue index of
        None \<Rightarrow> None
      | Some r \<Rightarrow>
          (case mapEntries coerce analysisResults issues (index + 1) of
             None \<Rightarrow> None
           | Some rs \<Rightarrow> Some (r # rs)))"

text \<open>
  The inner \<open>try\<close> block on the parsed reply. A value that is not an array has no
  method \<open>find\<close>, so the first callback throws; on an empty batch no callback
  runs.
\<close>

definition mapParsed ::
  "(json \<Rightarrow> number) \<Rightarrow> json \<Rightarrow> JiraIssue list \<Rightarrow> SimilarIssue list option" where
  "mapParsed coerce analysisResults issueBatch =
     (case analysisResults of
        JArr entries \<Rightarrow> mapEntries coerce entries issueBatch 0
      | _ \<Rightarrow> if issueBatch = [] then Some [] else None)"

definition analyzeBatch ::
  "(json \<Rightarrow> number) \<Rightarrow> JiraIssue list \<Rightarrow> completion \<Rightarrow> SimilarIssue list" where
  "analyzeBatch coerce issueBatch response =
     (case response of
        CallFails \<Rightarrow> map createFallbackSimilarity issueBatch
      | NoContent \<Rightarrow> map createFallbackSimilarity issueBatch
      | Unparsable \<Rightarrow> map createFallbackSimilarity issueBatch
      | Parsed analysisResults \<Rightarrow>
          (case mapParsed coerce analysisResults issueBatch of
             None \<Rightarrow> map createFallbackSimilarity issueBatch
           | Some rs \<Rightarrow> rs))"

text \<open>\<open>xs.slice(i, j)\<close> for \<open>0 \<le> i \<le> j\<close>\<close>

definition slice :: "'a list \<Rightarrow> nat \<Rightarrow> nat \<Rightarrow> 'a list" where
  "slice xs i j = take (j - i) (drop i xs)"

definition batchSize :: nat where
  "batchSize = 5"

text \<open>
  The batch loop of \<open>analyzeIssueSimilarity\<close>: \<open>responses k\<close> is the outcome of the
  k-th call to the generation service (counted from 0), one call per batch.
\<close>

function analyzeLoop ::
  "(json \<Rightarrow> number) \<Rightarrow> (nat \<Rightarrow> completion) \<Rightarrow> JiraIssue list \<Rightarrow> nat \<Rightarrow> SimilarIssue list
     \<Rightarrow> SimilarIssue list" where
  "analyzeLoop coerce responses existingIssues i results =
     (if i < length existingIssues
      then analyzeLoop coerce responses existingIssues (i + batchSize)
             (results @ analyzeBatch coerce (slice existingIssues i (i + batchSize))
                          (responses (i div batchSize)))
      else results)"
  by pat_completeness auto
termination
  by (relation "measure (\<lambda>(coerce, responses, existingIssues, i, results).
                  length existingIssues - i)") (auto simp: batchSize_def)

definition analyzeIssueSimilarity ::
  "(json \<Rightarrow> number) \<Rightarrow> (nat \<Rightarrow> completion) \<Rightarrow> JiraIssue list \<Rightarrow> SimilarIssue list" where
  "analyzeIssueSimilarity coerce responses existingIssues =
     sortBy (\<lambda>a b. minus_number (similarity b) (similarity a))
       (filter (\<lambda>result. gt (similarity result) (Fin 0))
          (analyzeLoop coerce responses existingIssues 0 []))"

subsection \<open>The orchestrator\<close>

definition generateRecommendations :: "SimilarIssue list \<Rightarrow> string list" where
  "generateRecommendations issues =
     (if length issues = 0 then ['' No similar issues found. Safe to proceed.'']
      else
        (let highSimilarity = filter (\<lambda>issue. gt (similarity issue) (Fin (8/10))) issues;
             mediumSimilarity =
               filter (\<lambda>issue. gt (similarity issue) (Fin (6/10))
                               \<and> le (similarity issue) (Fin (8/10))) issues
         in (if length highSimilarity > 0
             then [''  High similarity detected! Consider these actions:'',
                   ''    Check if the existing issue can be updated instead'',
                   ''    Add a comment to the existing issue'',
                   ''    Create a subtask if this is a specific aspect'']
             else [])
            @ (if length mediumSimilarity > 0
               then ['' Related issues found. Consider:'',
                     ''    Linking issues if they are related'',
                     ''    Adding references in the description'',
                     ''    Ensuring the new issue adds unique value'']
               else [])
            @ ['' Review the similar issues below before proceeding.'']))"

text \<open>
  The \<open>try\<close> block of \<open>checkForDuplicates\<close>. The two methods it awaits are
  parameters: \<open>search projectKey title descr\<close> and \<open>score (title, descr) issues\<close>
  give the outcome of \<open>searchSimilarIssues\<close> and of \<open>analyzeIssueSimilarity\<close>,
  \<open>Inl\<close> a thrown error.
\<close>

definition checkForDuplicatesTry ::
  "(string \<Rightarrow> string \<Rightarrow> string \<Rightarrow> JsError + JiraIssue list)
     \<Rightarrow> (string \<times> string \<Rightarrow> JiraIssue list \<Rightarrow> JsError + SimilarIssue list)
     \<Rightarrow> string \<Rightarrow> string \<Rightarrow> string \<Rightarrow> JsError + DuplicateAnalysis" where
  "checkForDuplicatesTry search score projectKey title descr =
     (case search projectKey title descr of
        Inl error \<Rightarrow> Inl error
      | Inr searchResults \<Rightarrow>
          if length searchResults = 0
          then Inr \<lparr>hasPotentialDuplicates = False,
                    similarIssues = [],
                    recommendations =
                      ['' No similar issues found. Safe to proceed with creation.'']\<rparr>
          else (case score (title, descr) searchResults of
                  Inl error \<Rightarrow> Inl error
                | Inr analysisResults \<Rightarrow>
                    (let significantMatches =
                           filter (\<lambda>result. gt (similarity result) (Fin (6/10))) analysisResults
                     in Inr \<lparr>hasPotentialDuplicates = (length significantMatches > 0),
                             similarIssues = significantMatches,
                             recommendations = generateRecommendations significantMatches\<rparr>)))"

text \<open>
  \<open>checkForDuplicates\<close> with its \<open>catch\<close> clause. The result is \<open>Inl\<close> when the
  method itself throws.
\<close>

definition checkForDuplicatesWith ::
  "(nat \<Rightarrow> string) \<Rightarrow> ErrorHandler
     \<Rightarrow> (string \<Rightarrow> string \<Rightarrow> string \<Rightarrow> JsError + JiraIssue list)
     \<Rightarrow> (string \<times> string \<Rightarrow> JiraIssue list \<Rightarrow> JsError + SimilarIssue list)
     \<Rightarrow> string \<Rightarrow> string \<Rightarrow> string \<Rightarrow> (JsError + DuplicateAnalysis) \<times> ErrorHandler" where
  "checkForDuplicatesWith answers h search score projectKey title descr =
     (case checkForDuplicatesTry search score projectKey title descr of
        Inr analysis \<Rightarrow> (Inr analysis, h)
      | Inl error \<Rightarrow>
          (case handleError answers h error (Some ''duplicate-detection'') of
             (retry, h') \<Rightarrow>
               (Inr \<lparr>hasPotentialDuplicates = False,
                     similarIssues = [],
                     recommendations =
                       ['' Unable to check for duplicates. Proceed with caution.'']\<rparr>,
                h')))"

text \<open>
  The method with the two private methods of the class in place, on the outcomes
  of the gateway and of the generation service.
\<close>

definition checkForDuplicates ::
  "(json \<Rightarrow> number) \<Rightarrow> (nat \<Rightarrow> string) \<Rightarrow> ErrorHandler
     \<Rightarrow> searchResponse \<Rightarrow> searchResponse \<Rightarrow> (nat \<Rightarrow> completion)
     \<Rightarrow> string \<Rightarrow> string \<Rightarrow> string \<Rightarrow> (JsError + DuplicateAnalysis) \<times> ErrorHandler" where
  "checkForDuplicates coerce answers h response fallbackResponse responses projectKey title descr =
     checkForDuplicatesWith answers h
       (\<lambda>projectKey title descr. Inr (searchSimilarIssues response fallbackResponse))
       (\<lambda>newIssue existingIssues. Inr (analyzeIssueSimilarity coerce responses existingIssues))
       projectKey title descr"


section \<open>The claims' own terms\<close>

text \<open>
  The white-space separated tokens of a text, as the specification speaks of
  them: the maximal blocks of characters that are not white space.
\<close>

function tokens :: "string \<Rightarrow> string list" where
  "tokens s =
     (case dropWhile isSpace s of
        [] \<Rightarrow> []
      | c # cs \<Rightarrow> (c # takeWhile (\<lambda>x. \<not> isSpace x) cs)
                  # tokens (dropWhile (\<lambda>x. \<not> isSpace x) cs))"
  by pat_completeness auto
termination
proof (relation "measure length")
  fix s :: string and c cs
  assume d: "dropWhile isSpace s = c # cs"
  have "length (dropWhile (\<lambda>x. \<not> isSpace x) cs) \<le> length cs"
    by (rule length_dropWhile_le)
  also have "length cs < length (dropWhile isSpace s)"
    using d by simp
  also have "\<dots> \<le> length s"
    by (rule length_dropWhile_le)
  finally show "(dropWhile (\<lambda>x. \<not> isSpace x) cs, s) \<in> measure length"
    by simp
qed simp

text \<open>
  The keyword heuristic in the specification's words: of the tokens of the
  lower-cased text, those longer than three characters and not purely numeric,
  the first five of them, and the single token \<open>issue\<close> if there is none.
\<close>

definition keywordHeuristic :: "string \<Rightarrow> string \<Rightarrow> string list" where
  "keywordHeuristic title descr =
     (let qualifying = filter (\<lambda>w. length w > 3 \<and> \<not> pureNumber w)
                         (tokens (toLowerCase (title @ '' '' @ descr)))
      in if qualifying = [] then [''issue''] else take 5 qualifying)"

text \<open>
  A clamped score: the outcome of \<open>Math.min(Math.max(v, 0), 1)\<close> is \<open>NaN\<close> or
  a finite number between 0 and 1.
\<close>

fun clamped :: "number \<Rightarrow> bool" where
  "clamped NaN = True"
| "clamped (Fin x) = (0 \<le> x \<and> x \<le> 1)"
| "clamped NegInf = False"
| "clamped PosInf = False"

text \<open>Sample data for the worked examples.\<close>

definition candidate :: "string \<Rightarrow> JiraIssue" where
  "candidate k =
     \<lparr>issue_key = k, fields_summary = ''Login fails'', fields_description = None,
      fields_status_name = ''Open'', fields_priority_name = None\<rparr>"

definition scored :: "nat \<Rightarrow> real \<Rightarrow> json" where
  "scored n s =
     JObj [(''issueIndex'', JNum (Fin (real n))), (''similarity'', JNum (Fin s)),
           (''reason'', JStr ''compared'')]"

definition result :: "string \<Rightarrow> real \<Rightarrow> SimilarIssue" where
  "result k s =
     \<lparr>key = k, summary = ''Login fails'', description = [], status = ''Open'',
      priority = ''Unknown'', similarity = Fin s, reason = JStr ''compared''\<rparr>"

declare makeRequestLoop.simps [simp del]
declare analyzeLoop.simps [simp del]
declare tokens.simps [simp del]


section \<open>Error classification\<close>

text \<open>
  C2 (as amended). For every plain error whose lower-cased message contains a
  network indicator (\<open>econnrefused\<close>, \<open>enotfound\<close> or \<open>timeout\<close>),
  \<open>normalizeError\<close> returns an error of kind \<open>NETWORK_ERROR\<close> that is marked
  retryable, whatever else the message contains: the network indicators are
  tested first. An error that is already classified is returned as it is.
\<close>

theorem normalizeError_network_first:
  assumes "includesStr (toLowerCase msg) ''econnrefused''
           \<or> includesStr (toLowerCase msg) ''enotfound''
           \<or> includesStr (toLowerCase msg) ''timeout''"
  shows "errType (normalizeError (PlainError msg)) = NETWORK_ERROR
         \<and> isRetryable (normalizeError (PlainError msg)) = True
         \<and> normalizeError (Classified a) = a"
  using assms by (simp add: normalizeError_def mkAppError_def Let_def)

theorem normalizeError_network_first_witness:
  "includesStr (toLowerCase ''connect ECONNREFUSED: 401 unauthorized'') ''econnrefused''
   \<and> errType (normalizeError (PlainError ''connect ECONNREFUSED: 401 unauthorized''))
       = NETWORK_ERROR
   \<and> isRetryable (normalizeError (PlainError ''connect ECONNREFUSED: 401 unauthorized''))"
proof -
  have h: "includesStr (toLowerCase ''connect ECONNREFUSED: 401 unauthorized'') ''econnrefused''"
    by code_simp
  from normalizeError_network_first [of "''connect ECONNREFUSED: 401 unauthorized''"] h
  show ?thesis by simp
qed

text \<open>
  C2 as the specification states it fails: the error with message
  \<open>Request timeout\<close> contains a network indicator and is classified as
  retryable.
\<close>

theorem normalizeError_network_unretryable_counterexample:
  "includesStr (toLowerCase ''Request timeout'') ''timeout''
   \<and> errType (normalizeError (PlainError ''Request timeout'')) = NETWORK_ERROR
   \<and> \<not> (isRetryable (normalizeError (PlainError ''Request timeout'')) = False)"
  by code_simp


section \<open>The retry controller\<close>

text \<open>
  C6 (as amended). On \<open>handleError\<close> of an error that classifies as retryable:
  if the attempt count of the context is below the maximum and the user's answer
  to the retry prompt does not start with \<open>y\<close>, the context's counter is removed
  from the retry map and the result is false; if the attempt count has reached
  the maximum, the result is false, no prompt is shown and the handler's state,
  the context's counter included, is left as it was.
\<close>

theorem handleError_decline_or_exhausted:
  assumes "isRetryable (normalizeError error)"
  shows "(attemptsOf h (contextOrDefault context) < maxRetries
            \<and> \<not> startsWith (toLowerCase (answers (prompts h))) ''y''
          \<longrightarrow> handleError answers h error context =
                (False, h\<lparr>retryAttempts := (retryAttempts h)(contextOrDefault context := None),
                          prompts := prompts h + 1\<rparr>))
       \<and> (maxRetries \<le> attemptsOf h (contextOrDefault context)
          \<longrightarrow> handleError answers h error context = (False, h))"
  using assms
  by (simp add: handleError_def promptForRetry_def shouldRetry_def Let_def)

theorem handleError_decline_or_exhausted_witness:
  "isRetryable (normalizeError (PlainError ''boom''))
   \<and> attemptsOf \<lparr>retryAttempts = [''ctx'' \<mapsto> 1], prompts = 0\<rparr> (contextOrDefault (Some ''ctx''))
       < maxRetries
   \<and> \<not> startsWith (toLowerCase ((\<lambda>k. ''no'') (0::nat))) ''y''
   \<and> fst (handleError (\<lambda>k. ''no'') \<lparr>retryAttempts = [''ctx'' \<mapsto> 1], prompts = 0\<rparr>
             (PlainError ''boom'') (Some ''ctx'')) = False
   \<and> retryAttempts (snd (handleError (\<lambda>k. ''no'') \<lparr>retryAttempts = [''ctx'' \<mapsto> 1], prompts = 0\<rparr>
             (PlainError ''boom'') (Some ''ctx''))) ''ctx'' = None
   \<and> maxRetries \<le> attemptsOf \<lparr>retryAttempts = [''ctx'' \<mapsto> 3], prompts = 0\<rparr>
                     (contextOrDefault (Some ''ctx''))
   \<and> handleError (\<lambda>k. ''no'') \<lparr>retryAttempts = [''ctx'' \<mapsto> 3], prompts = 0\<rparr>
        (PlainError ''boom'') (Some ''ctx'')
       = (False, \<lparr>retryAttempts = [''ctx'' \<mapsto> 3], prompts = 0\<rparr>)"
proof -
  have r: "isRetryable (normalizeError (PlainError ''boom''))"
    by (simp add: normalizeError_def mkAppError_def toLowerCase_def toLowerChar_def)
  have n: "\<not> startsWith (toLowerCase ((\<lambda>k. ''no'') (0::nat))) ''y''"
    by (simp add: startsWith_def toLowerCase_def toLowerChar_def)
  have c: "contextOrDefault (Some ''ctx'') = ''ctx''"
    by (simp add: contextOrDefault_def)
  have a1: "attemptsOf \<lparr>retryAttempts = [''ctx'' \<mapsto> 1], prompts = 0\<rparr> ''ctx'' < maxRetries"
    by (simp add: attemptsOf_def maxRetries_def)
  have a3: "maxRetries \<le> attemptsOf \<lparr>retryAttempts = [''ctx'' \<mapsto> 3], prompts = 0\<rparr> ''ctx''"
    by (simp add: attemptsOf_def maxRetries_def)
  from handleError_decline_or_exhausted
         [OF r, of "\<lparr>retryAttempts = [''ctx'' \<mapsto> 1], prompts = 0\<rparr>" "Some ''ctx''" "\<lambda>k. ''no''"]
       handleError_decline_or_exhausted
         [OF r, of "\<lparr>retryAttempts = [''ctx'' \<mapsto> 3], prompts = 0\<rparr>" "Some ''ctx''" "\<lambda>k. ''no''"]
       r n c a1 a3
  show ?thesis by simp
qed

text \<open>
  C6 as the specification states it fails where the retry budget is exhausted:
  with three attempts counted for the context, \<open>handleError\<close> of a retryable
  error returns false and the counter still stands at three.
\<close>

theorem handleError_exhausted_counterexample:
  "isRetryable (normalizeError (PlainError ''boom''))
   \<and> attemptsOf \<lparr>retryAttempts = [''ctx'' \<mapsto> 3], prompts = 0\<rparr> ''ctx'' = maxRetries
   \<and> fst (handleError (\<lambda>k. ''y'') \<lparr>retryAttempts = [''ctx'' \<mapsto> 3], prompts = 0\<rparr>
             (PlainError ''boom'') (Some ''ctx'')) = False
   \<and> retryAttempts
        (snd (handleError (\<lambda>k. ''y'') \<lparr>retryAttempts = [''ctx'' \<mapsto> 3], prompts = 0\<rparr>
                (PlainError ''boom'') (Some ''ctx''))) ''ctx'' = Some 3"
  by (simp add: handleError_def shouldRetry_def attemptsOf_def maxRetries_def
        contextOrDefault_def normalizeError_def mkAppError_def toLowerCase_def toLowerChar_def)


section \<open>The operation runner\<close>






text \<open>
  Without a reset, a context whose three attempts are spent gets no further
  retry: the first failure of the next call is thrown at once.
\<close>

lemma makeRequest_without_reset:
  assumes fails: "\<forall>k. operation k = Inl (err k)"
      and ctx: "ctx \<noteq> []"
      and spent: "retryAttempts h ctx = Some 3"
  shows "makeRequest answers h operation ctx 3 = (Inl (Some (err 0)), h, 1)"
  using assms
  by (subst makeRequest_def, subst makeRequestLoop.simps)
     (simp add: handleError_def shouldRetry_def attemptsOf_def maxRetries_def
        contextOrDefault_def Let_def)








section \<open>The batch scorer\<close>

lemma createFallbackSimilarity_fields:
  "key (createFallbackSimilarity i) = issue_key i"
  "summary (createFallbackSimilarity i) = fields_summary i"
  "description (createFallbackSimilarity i) = (case fields_description i of None \<Rightarrow> [] | Some d \<Rightarrow> d)"
  "status (createFallbackSimilarity i) = fields_status_name i"
  "priority (createFallbackSimilarity i) =
     (case fields_priority_name i of None \<Rightarrow> ''Unknown'' | Some p \<Rightarrow> if p = [] then ''Unknown'' else p)"
  by (simp_all add: createFallbackSimilarity_def strOr_def split: option.splits)

lemma analyzeEntry_fields:
  assumes "analyzeEntry coerce rs i n = Some r"
  shows "key r = issue_key i"
    "summary r = fields_summary i"
    "description r = (case fields_description i of None \<Rightarrow> [] | Some d \<Rightarrow> d)"
    "status r = fields_status_name i"
    "priority r =
     (case fields_priority_name i of None \<Rightarrow> ''Unknown'' | Some p \<Rightarrow> if p = [] then ''Unknown'' else p)"
  using assms
  by (auto simp: analyzeEntry_def strOr_def Let_def split: option.splits)

lemma mapEntries_fields:
  "mapEntries coerce rs issues n = Some out \<Longrightarrow>
   map (\<lambda>r. (key r, summary r, description r, status r, priority r)) out =
   map (\<lambda>i. (issue_key i, fields_summary i,
      (case fields_description i of None \<Rightarrow> [] | Some d \<Rightarrow> d),
      fields_status_name i,
      (case fields_priority_name i of None \<Rightarrow> ''Unknown''
         | Some p \<Rightarrow> if p = [] then ''Unknown'' else p))) issues"
proof (induction issues arbitrary: n out)
  case Nil
  then show ?case by simp
next
  case (Cons i issues)
  from Cons.prems obtain r rest where
    r: "analyzeEntry coerce rs i n = Some r" and
    rest: "mapEntries coerce rs issues (n + 1) = Some rest" and
    out: "out = r # rest"
    by (auto split: option.splits)
  from Cons.IH [OF rest] analyzeEntry_fields [OF r] out show ?case by simp
qed

text \<open>
  C10. For every batch of candidates and every outcome of the call to the
  generation service, \<open>analyzeBatch\<close> returns one result per candidate, in the
  order of the batch, with key, summary and status copied from the candidate,
  the description or the empty string when there is none, and the priority or
  \<open>Unknown\<close> when there is none (or its name is empty).
\<close>

theorem analyzeBatch_one_result_per_candidate:
  "length (analyzeBatch coerce issueBatch response) = length issueBatch
   \<and> map (\<lambda>r. (key r, summary r, description r, status r, priority r))
       (analyzeBatch coerce issueBatch response) =
     map (\<lambda>i. (issue_key i, fields_summary i,
            (case fields_description i of None \<Rightarrow> [] | Some d \<Rightarrow> d),
            fields_status_name i,
            (case fields_priority_name i of None \<Rightarrow> ''Unknown''
               | Some p \<Rightarrow> if p = [] then ''Unknown'' else p))) issueBatch"
proof -
  have m: "map (\<lambda>r. (key r, summary r, description r, status r, priority r))
       (analyzeBatch coerce issueBatch response) =
     map (\<lambda>i. (issue_key i, fields_summary i,
            (case fields_description i of None \<Rightarrow> [] | Some d \<Rightarrow> d),
            fields_status_name i,
            (case fields_priority_name i of None \<Rightarrow> ''Unknown''
               | Some p \<Rightarrow> if p = [] then ''Unknown'' else p))) issueBatch"
  proof (cases response)
    case (Parsed j)
    show ?thesis
    proof (cases "mapParsed coerce j issueBatch")
      case None
      with Parsed show ?thesis by (simp add: analyzeBatch_def createFallbackSimilarity_fields)
    next
      case (Some rs)
      then have "map (\<lambda>r. (key r, summary r, description r, status r, priority r)) rs =
        map (\<lambda>i. (issue_key i, fields_summary i,
            (case fields_description i of None \<Rightarrow> [] | Some d \<Rightarrow> d),
            fields_status_name i,
            (case fields_priority_name i of None \<Rightarrow> ''Unknown''
               | Some p \<Rightarrow> if p = [] then ''Unknown'' else p))) issueBatch"
        by (auto simp: mapParsed_def split: json.splits if_splits dest: mapEntries_fields)
      with Parsed Some show ?thesis by (simp add: analyzeBatch_def)
    qed
  qed (simp_all add: analyzeBatch_def createFallbackSimilarity_fields)
  have l: "length (analyzeBatch coerce issueBatch response) = length issueBatch"
    by (rule map_eq_imp_length_eq [OF m])
  from l m show ?thesis by (rule conjI)
qed

theorem analyzeBatch_one_result_per_candidate_witness:
  "map (\<lambda>r. (key r, summary r, description r, status r, priority r))
     (analyzeBatch (\<lambda>v. NaN)
        [\<lparr>issue_key = ''K-1'', fields_summary = ''Login fails'',
          fields_description = None, fields_status_name = ''Open'',
          fields_priority_name = None\<rparr>,
         \<lparr>issue_key = ''K-2'', fields_summary = ''Logout hangs'',
          fields_description = Some ''Spinner forever'', fields_status_name = ''Done'',
          fields_priority_name = Some ''High''\<rparr>]
        (Parsed (JArr [JObj [(''issueIndex'', JNum (Fin 2)),
                             (''similarity'', JNum (Fin (7/10)))]])))
   = [(''K-1'', ''Login fails'', [], ''Open'', ''Unknown''),
      (''K-2'', ''Logout hangs'', ''Spinner forever'', ''Done'', ''High'')]"
  using analyzeBatch_one_result_per_candidate
    [of "\<lambda>v. NaN"
        "[\<lparr>issue_key = ''K-1'', fields_summary = ''Login fails'',
          fields_description = None, fields_status_name = ''Open'',
          fields_priority_name = None\<rparr>,
         \<lparr>issue_key = ''K-2'', fields_summary = ''Logout hangs'',
          fields_description = Some ''Spinner forever'', fields_status_name = ''Done'',
          fields_priority_name = Some ''High''\<rparr>]"
        "Parsed (JArr [JObj [(''issueIndex'', JNum (Fin 2)),
                             (''similarity'', JNum (Fin (7/10)))]])"]
  by simp


section \<open>The range of similarity scores\<close>

lemma clamp_range: "clamped (Math_min (Math_max n (Fin 0)) (Fin 1))"
  by (cases n) auto

lemma analyzeEntry_range:
  assumes "analyzeEntry coerce rs i n = Some r"
  shows "clamped (similarity r)"
proof -
  from assms obtain m where "similarity r = Math_min (Math_max m (Fin 0)) (Fin 1)"
    by (auto simp: analyzeEntry_def Let_def split: option.splits)
  with clamp_range [of m] show ?thesis by simp
qed

lemma mapEntries_range:
  "mapEntries coerce rs issues n = Some out \<Longrightarrow> r \<in> set out \<Longrightarrow> clamped (similarity r)"
proof (induction issues arbitrary: n out)
  case Nil
  then show ?case by simp
next
  case (Cons i issues)
  from Cons.prems(1) obtain r0 rest where
    r0: "analyzeEntry coerce rs i n = Some r0" and
    rest: "mapEntries coerce rs issues (n + 1) = Some rest" and
    out: "out = r0 # rest"
    by (auto split: option.splits)
  from Cons.prems(2) out consider "r = r0" | "r \<in> set rest" by auto
  then show ?case
  proof cases
    case 1
    with analyzeEntry_range [OF r0] show ?thesis by simp
  next
    case 2
    with Cons.IH [OF rest] show ?thesis by simp
  qed
qed

lemma fallback_range: "clamped (similarity (createFallbackSimilarity i))"
  by (simp add: createFallbackSimilarity_def)

lemma analyzeBatch_range:
  assumes "r \<in> set (analyzeBatch coerce issueBatch response)"
  shows "clamped (similarity r)"
proof (cases "r \<in> set (map createFallbackSimilarity issueBatch)")
  case True
  then show ?thesis using fallback_range by auto
next
  case False
  with assms obtain j rs where "mapParsed coerce j issueBatch = Some rs" "r \<in> set rs"
    by (auto simp: analyzeBatch_def split: completion.splits option.splits)
  then show ?thesis
    by (auto simp: mapParsed_def split: json.splits if_splits dest: mapEntries_range)
qed

lemma analyzeLoop_range:
  assumes "\<forall>r\<in>set results. clamped (similarity r)"
      and "r \<in> set (analyzeLoop coerce responses existingIssues i results)"
  shows "clamped (similarity r)"
  using assms
proof (induction coerce responses existingIssues i results rule: analyzeLoop.induct)
  case (1 coerce responses existingIssues i results)
  show ?case
  proof (cases "i < length existingIssues")
    case True
    let ?res = "results @ analyzeBatch coerce (slice existingIssues i (i + batchSize))
                          (responses (i div batchSize))"
    have a: "\<forall>r\<in>set ?res. clamped (similarity r)"
      using "1.prems"(1) analyzeBatch_range by auto
    have b: "r \<in> set (analyzeLoop coerce responses existingIssues (i + batchSize) ?res)"
      using "1.prems"(2) True by (subst (asm) analyzeLoop.simps) simp
    from "1.IH" [OF True a b] show ?thesis .
  next
    case False
    with "1.prems" show ?thesis by (subst (asm) analyzeLoop.simps) auto
  qed
qed

lemma set_insertBy: "set (insertBy cmp x xs) = insert x (set xs)"
  by (induction xs) auto

lemma set_sortBy: "set (sortBy cmp xs) = set xs"
  by (induction xs) (auto simp: sortBy_def set_insertBy)

lemma clamped_positive:
  "clamped n \<Longrightarrow> gt n (Fin 0) \<Longrightarrow> \<exists>x. n = Fin x \<and> 0 < x \<and> x \<le> 1"
  by (cases n) auto

text \<open>
  What the clamp does guarantee: a batch result carries \<open>NaN\<close> or a finite score
  between 0 and 1 (\<open>analyzeBatch_range\<close>), and every result that passes the
  scorer's final filter carries a finite score between 0 and 1.
\<close>

lemma scorer_output_in_unit_interval:
  assumes "r \<in> set (analyzeIssueSimilarity coerce responses existingIssues)"
  shows "\<exists>x. similarity r = Fin x \<and> 0 \<le> x \<and> x \<le> 1"
proof -
  from assms have m: "r \<in> set (analyzeLoop coerce responses existingIssues 0 [])"
    and p: "gt (similarity r) (Fin 0)"
    by (simp_all add: analyzeIssueSimilarity_def set_sortBy)
  from analyzeLoop_range [OF _ m] have "clamped (similarity r)" by simp
  from clamped_positive [OF this p] show ?thesis by auto
qed


text \<open>
  C4. The claim is that every similarity the scorer produces lies in [0,1], also
  for a reply whose score is not a number. The code does not achieve this: for
  the reply \<open>[{"issueIndex": 1, "similarity": "high"}]\<close> the score is a non-empty
  string, so \<open>analysis.similarity || 0\<close> keeps it, its conversion to a number is
  \<open>NaN\<close>, and \<open>Math.min(Math.max(NaN, 0), 1)\<close> is \<open>NaN\<close>. The result built for the
  candidate carries \<open>NaN\<close>, and the scorer's final filter then removes the
  candidate from the output.
\<close>

theorem analyzeBatch_non_numeric_score:
  assumes "coerce (JStr ''high'') = NaN"
  shows "map similarity
           (analyzeBatch coerce [candidate ''K-1'']
              (Parsed (JArr [JObj [(''issueIndex'', JNum (Fin 1)),
                                   (''similarity'', JStr ''high'')]]))) = [NaN]
       \<and> analyzeIssueSimilarity coerce
           (\<lambda>k. Parsed (JArr [JObj [(''issueIndex'', JNum (Fin 1)),
                                      (''similarity'', JStr ''high'')]]))
           [candidate ''K-1''] = []"
  using assms
  by (simp add: analyzeIssueSimilarity_def analyzeLoop.simps batchSize_def slice_def
        candidate_def analyzeBatch_def mapParsed_def analyzeEntry_def orElse_def strOr_def
        sortBy_def)

theorem analyzeBatch_non_numeric_score_witness:
  "(\<lambda>v. NaN) (JStr ''high'') = NaN
   \<and> map similarity
       (analyzeBatch (\<lambda>v. NaN) [candidate ''K-1'']
          (Parsed (JArr [JObj [(''issueIndex'', JNum (Fin 1)),
                               (''similarity'', JStr ''high'')]]))) = [NaN]
   \<and> analyzeIssueSimilarity (\<lambda>v. NaN)
       (\<lambda>k. Parsed (JArr [JObj [(''issueIndex'', JNum (Fin 1)),
                                  (''similarity'', JStr ''high'')]]))
       [candidate ''K-1''] = []"
  using analyzeBatch_non_numeric_score [of "\<lambda>v. NaN"] by simp


section \<open>The batch loop and unmatched entries\<close>

lemma analyzeLoop_acc:
  "analyzeLoop coerce responses issues i results =
     results @ analyzeLoop coerce responses issues i []"
proof (induction "length issues - i" arbitrary: i results rule: less_induct)
  case less
  show ?case
  proof (cases "i < length issues")
    case True
    let ?B = "analyzeBatch coerce (slice issues i (i + batchSize)) (responses (i div batchSize))"
    have d: "length issues - (i + batchSize) < length issues - i"
      using True by (simp add: batchSize_def)
    have "analyzeLoop coerce responses issues i results =
            analyzeLoop coerce responses issues (i + batchSize) (results @ ?B)"
      using True by (subst analyzeLoop.simps) simp
    also have "\<dots> = (results @ ?B) @ analyzeLoop coerce responses issues (i + batchSize) []"
      by (rule less [OF d])
    also have "analyzeLoop coerce responses issues i [] =
            analyzeLoop coerce responses issues (i + batchSize) ([] @ ?B)"
      using True by (subst analyzeLoop.simps) simp
    then have "(results @ ?B) @ analyzeLoop coerce responses issues (i + batchSize) [] =
          results @ analyzeLoop coerce responses issues i []"
      using less [OF d, of ?B] by simp
    finally show ?thesis .
  next
    case False
    then show ?thesis by (subst analyzeLoop.simps, subst (2) analyzeLoop.simps) simp
  qed
qed

lemma analyzeLoop_unfold:
  "analyzeLoop coerce responses issues i [] =
     (if i < length issues
      then analyzeBatch coerce (slice issues i (i + batchSize)) (responses (i div batchSize))
           @ analyzeLoop coerce responses issues (i + batchSize) []
      else [])"
proof (cases "i < length issues")
  case True
  let ?B = "analyzeBatch coerce (slice issues i (i + batchSize)) (responses (i div batchSize))"
  from True have "analyzeLoop coerce responses issues i [] =
     analyzeLoop coerce responses issues (i + batchSize) ?B"
    by (subst analyzeLoop.simps) simp
  also have "\<dots> = ?B @ analyzeLoop coerce responses issues (i + batchSize) []"
    by (rule analyzeLoop_acc)
  finally show ?thesis using True by simp
next
  case False
  then show ?thesis by (subst analyzeLoop.simps) simp
qed









lemma analyzeBatch_length:
  "length (analyzeBatch coerce issueBatch response) = length issueBatch"
proof -
  have "\<And>j rs. mapParsed coerce j issueBatch = Some rs \<Longrightarrow> length rs = length issueBatch"
    by (auto simp: mapParsed_def split: json.splits if_splits
          dest!: mapEntries_fields map_eq_imp_length_eq)
  then show ?thesis
    by (auto simp: analyzeBatch_def split: completion.splits option.splits)
qed








section \<open>The final sort\<close>

lemma insertBy_append:
  "ys = [] \<or> \<not> gt (cmp x (hd ys)) (Fin 0) \<Longrightarrow>
   insertBy cmp x (zs @ ys) = insertBy cmp x zs @ ys"
  by (induction zs) (cases ys; auto)+

lemma foldr_insertBy_append:
  "\<forall>x\<in>set xs. ys = [] \<or> \<not> gt (cmp x (hd ys)) (Fin 0) \<Longrightarrow>
   foldr (insertBy cmp) xs ys = foldr (insertBy cmp) xs [] @ ys"
  by (induction xs) (auto simp: insertBy_append)

lemma sortBy_append:
  assumes "sortBy cmp ys = ys"
      and "\<forall>x\<in>set xs. ys = [] \<or> \<not> gt (cmp x (hd ys)) (Fin 0)"
  shows "sortBy cmp (xs @ ys) = sortBy cmp xs @ ys"
proof -
  have "sortBy cmp (xs @ ys) = foldr (insertBy cmp) xs (sortBy cmp ys)"
    by (simp add: sortBy_def)
  also have "\<dots> = foldr (insertBy cmp) xs ys" using assms(1) by simp
  also have "\<dots> = sortBy cmp xs @ ys"
    using foldr_insertBy_append [of xs ys cmp] assms(2) by (simp add: sortBy_def)
  finally show ?thesis .
qed

lemma length_insertBy: "length (insertBy cmp x xs) = Suc (length xs)"
  by (induction xs) auto

lemma length_sortBy: "length (sortBy cmp xs) = length xs"
  by (induction xs) (auto simp: sortBy_def length_insertBy)

lemma sorted_insertBy:
  assumes "\<forall>y\<in>set (x # xs). \<exists>v. similarity y = Fin v"
      and "sorted_wrt (\<lambda>a b. \<not> gt (similarity b) (similarity a)) xs"
  shows "sorted_wrt (\<lambda>a b. \<not> gt (similarity b) (similarity a))
           (insertBy (\<lambda>a b. minus_number (similarity b) (similarity a)) x xs)"
  using assms
proof (induction xs)
  case Nil
  then show ?case by simp
next
  case (Cons y ys)
  from Cons.prems(1) obtain vx vy where v: "similarity x = Fin vx" "similarity y = Fin vy"
    by auto
  show ?case
  proof (cases "vx < vy")
    case True
    have "sorted_wrt (\<lambda>a b. \<not> gt (similarity b) (similarity a))
           (insertBy (\<lambda>a b. minus_number (similarity b) (similarity a)) x ys)"
      using Cons by auto
    moreover have "\<forall>z\<in>set (insertBy (\<lambda>a b. minus_number (similarity b) (similarity a)) x ys).
                     \<not> gt (similarity z) (similarity y)"
      using Cons.prems True v by (auto simp: set_insertBy)
    ultimately show ?thesis using True v by simp
  next
    case False
    have "\<forall>z\<in>set ys. \<not> gt (similarity z) (similarity x)"
    proof
      fix z assume z: "z \<in> set ys"
      with Cons.prems(1) obtain vz where vz: "similarity z = Fin vz" by auto
      from z Cons.prems(2) have "\<not> gt (similarity z) (similarity y)" by simp
      with vz v False show "\<not> gt (similarity z) (similarity x)" by simp
    qed
    with Cons.prems(2) False v show ?thesis by simp
  qed
qed

lemma sorted_sortBy:
  "\<forall>y\<in>set xs. \<exists>v. similarity y = Fin v \<Longrightarrow>
   sorted_wrt (\<lambda>a b. \<not> gt (similarity b) (similarity a))
     (sortBy (\<lambda>a b. minus_number (similarity b) (similarity a)) xs)"
proof (induction xs)
  case Nil
  then show ?case by (simp add: sortBy_def)
next
  case (Cons x xs)
  have "sorted_wrt (\<lambda>a b. \<not> gt (similarity b) (similarity a))
     (insertBy (\<lambda>a b. minus_number (similarity b) (similarity a)) x
        (sortBy (\<lambda>a b. minus_number (similarity b) (similarity a)) xs))"
    using Cons by (intro sorted_insertBy) (auto simp: set_sortBy)
  then show ?case by (simp add: sortBy_def)
qed


lemma seven_candidates_loop:
  assumes "length issues = 7"
  shows "analyzeLoop coerce responses issues 0 [] =
           analyzeBatch coerce (take 5 issues) (responses 0)
           @ analyzeBatch coerce (drop 5 issues) (responses 1)"
proof -
  have a: "analyzeLoop coerce responses issues 10 [] = []"
    using assms by (subst analyzeLoop_unfold) simp
  have b: "analyzeLoop coerce responses issues 5 [] =
             analyzeBatch coerce (drop 5 issues) (responses 1)"
    using assms a by (subst analyzeLoop_unfold) (simp add: batchSize_def slice_def)
  show ?thesis
    using assms b by (subst analyzeLoop_unfold) (simp add: batchSize_def slice_def)
qed

lemma drop5_of_seven:
  "length xs = 7 \<Longrightarrow> drop 5 xs = [xs ! 5, xs ! 6]"
proof -
  assume l: "length xs = 7"
  then have "drop 5 xs = xs ! 5 # drop 6 xs"
    using Cons_nth_drop_Suc [of 5 xs] by simp
  moreover have "drop 6 xs = xs ! 6 # drop 7 xs"
    using l Cons_nth_drop_Suc [of 6 xs] by simp
  ultimately show ?thesis using l by simp
qed

lemma insertBy_skip:
  "\<forall>z\<in>set zs. gt (cmp x z) (Fin 0) \<Longrightarrow> insertBy cmp x (zs @ ys) = zs @ insertBy cmp x ys"
  by (induction zs) auto

lemma foldr_insertBy_around:
  assumes F: "F \<noteq> []" "\<forall>f\<in>set F. similarity f = Fin t"
      and xs: "\<forall>x\<in>set xs. \<exists>v. similarity x = Fin v"
  shows "foldr (insertBy (\<lambda>a b. minus_number (similarity b) (similarity a))) xs F =
           sortBy (\<lambda>a b. minus_number (similarity b) (similarity a))
             (filter (\<lambda>r. le (Fin t) (similarity r)) xs)
           @ F
           @ sortBy (\<lambda>a b. minus_number (similarity b) (similarity a))
               (filter (\<lambda>r. gt (Fin t) (similarity r)) xs)"
  using xs
proof (induction xs)
  case Nil
  show ?case by (simp add: sortBy_def)
next
  case (Cons x xs)
  let ?cmp = "\<lambda>a b. minus_number (similarity b) (similarity a)"
  let ?H = "sortBy ?cmp (filter (\<lambda>r. le (Fin t) (similarity r)) xs)"
  let ?L = "sortBy ?cmp (filter (\<lambda>r. gt (Fin t) (similarity r)) xs)"
  from Cons.prems obtain v where v: "similarity x = Fin v" by auto
  from Cons have IH: "foldr (insertBy ?cmp) xs F = ?H @ F @ ?L" by simp
  from F obtain f fs where Fc: "F = f # fs" and f: "similarity f = Fin t"
    by (cases F) auto
  show ?case
  proof (cases "v < t")
    case False
    have "insertBy ?cmp x (?H @ (F @ ?L)) = insertBy ?cmp x ?H @ (F @ ?L)"
      by (rule insertBy_append) (use Fc f v False in simp)
    with IH v False show ?thesis by (simp add: sortBy_def)
  next
    case True
    have "\<forall>z\<in>set (?H @ F). gt (?cmp x z) (Fin 0)"
    proof
      fix z assume "z \<in> set (?H @ F)"
      then consider "z \<in> set xs" "le (Fin t) (similarity z)" | "z \<in> set F"
        by (auto simp: set_sortBy)
      then show "gt (?cmp x z) (Fin 0)"
      proof cases
        case 1
        with Cons.prems obtain w where "similarity z = Fin w" by auto
        with 1 v True show ?thesis by simp
      next
        case 2
        with F v True show ?thesis by simp
      qed
    qed
    then have "insertBy ?cmp x ((?H @ F) @ ?L) = (?H @ F) @ insertBy ?cmp x ?L"
      by (rule insertBy_skip)
    with IH v True show ?thesis by (simp add: sortBy_def)
  qed
qed

lemma at_least_positive:
  "le (Fin (1/10)) n \<Longrightarrow> gt n (Fin 0)"
  by (cases n) auto

text \<open>
  C8 (as amended). Given 7 candidates and a call to the generation service that
  fails or returns unparsable output for the second batch, the scorer's output
  is: the first-batch results scored at least 0.1, in descending order of their
  scores (ties in batch order); then the two second-batch candidates, each with
  similarity 0.1 and reason \<open>Unable to perform detailed analysis\<close>; then the
  first-batch results scored above 0 and below 0.1, in descending order. A
  first-batch result scored 0 or less, or not a number, is not in the output.
  In particular, when all five first-batch scores are at least 0.1, the output
  is the five first-batch results followed by the two second-batch candidates.
  The whole output is in descending order of similarity.
\<close>

theorem second_batch_degraded:
  assumes len: "length existingIssues = 7"
      and second: "responses 1 = CallFails \<or> responses 1 = Unparsable"
  shows "analyzeIssueSimilarity coerce responses existingIssues =
           sortBy (\<lambda>a b. minus_number (similarity b) (similarity a))
             (filter (\<lambda>r. le (Fin (1/10)) (similarity r))
                (analyzeBatch coerce (take 5 existingIssues) (responses 0)))
           @ [createFallbackSimilarity (existingIssues ! 5),
              createFallbackSimilarity (existingIssues ! 6)]
           @ sortBy (\<lambda>a b. minus_number (similarity b) (similarity a))
               (filter (\<lambda>r. gt (similarity r) (Fin 0) \<and> gt (Fin (1/10)) (similarity r))
                  (analyzeBatch coerce (take 5 existingIssues) (responses 0)))
       \<and> ((\<forall>r\<in>set (analyzeBatch coerce (take 5 existingIssues) (responses 0)).
               le (Fin (1/10)) (similarity r))
            \<longrightarrow> analyzeIssueSimilarity coerce responses existingIssues =
                  sortBy (\<lambda>a b. minus_number (similarity b) (similarity a))
                    (analyzeBatch coerce (take 5 existingIssues) (responses 0))
                  @ [createFallbackSimilarity (existingIssues ! 5),
                     createFallbackSimilarity (existingIssues ! 6)]
                \<and> length (sortBy (\<lambda>a b. minus_number (similarity b) (similarity a))
                     (analyzeBatch coerce (take 5 existingIssues) (responses 0))) = 5
                \<and> set (sortBy (\<lambda>a b. minus_number (similarity b) (similarity a))
                     (analyzeBatch coerce (take 5 existingIssues) (responses 0)))
                    = set (analyzeBatch coerce (take 5 existingIssues) (responses 0)))
       \<and> sorted_wrt (\<lambda>a b. \<not> gt (similarity b) (similarity a))
           (analyzeIssueSimilarity coerce responses existingIssues)
       \<and> (\<forall>j\<in>{5, 6}.
            key (createFallbackSimilarity (existingIssues ! j)) = issue_key (existingIssues ! j)
            \<and> similarity (createFallbackSimilarity (existingIssues ! j)) = Fin (1/10)
            \<and> reason (createFallbackSimilarity (existingIssues ! j))
                = JStr ''Unable to perform detailed analysis'')"
proof -
  let ?cmp = "\<lambda>a b. minus_number (similarity b) (similarity a)"
  let ?B = "analyzeBatch coerce (take 5 existingIssues) (responses 0)"
  let ?P = "filter (\<lambda>result. gt (similarity result) (Fin 0)) ?B"
  let ?F = "[createFallbackSimilarity (existingIssues ! 5),
             createFallbackSimilarity (existingIssues ! 6)]"
  have F: "analyzeBatch coerce (drop 5 existingIssues) (responses 1) = ?F"
    using second drop5_of_seven [OF len] by (auto simp: analyzeBatch_def)
  have loop: "analyzeLoop coerce responses existingIssues 0 [] = ?B @ ?F"
    using seven_candidates_loop [OF len] F by simp
  have keepF: "filter (\<lambda>result. gt (similarity result) (Fin 0)) ?F = ?F"
    by (simp add: createFallbackSimilarity_def)
  have sortedF: "sortBy ?cmp ?F = ?F"
    by (simp add: sortBy_def createFallbackSimilarity_def)
  have finP: "\<forall>x\<in>set ?P. \<exists>v. similarity x = Fin v"
  proof
    fix x assume x: "x \<in> set ?P"
    then have "x \<in> set ?B" and p: "gt (similarity x) (Fin 0)" by simp_all
    from analyzeBatch_range [OF this(1)] have "clamped (similarity x)" .
    from clamped_positive [OF this p] show "\<exists>v. similarity x = Fin v" by blast
  qed
  have Fne: "?F \<noteq> []" by simp
  have Ft: "\<forall>f\<in>set ?F. similarity f = Fin (1/10)"
    by (simp add: createFallbackSimilarity_def)
  have "analyzeIssueSimilarity coerce responses existingIssues = sortBy ?cmp (?P @ ?F)"
    unfolding analyzeIssueSimilarity_def loop filter_append keepF ..
  also have "\<dots> = foldr (insertBy ?cmp) ?P (sortBy ?cmp ?F)"
    by (simp add: sortBy_def)
  also have "\<dots> = foldr (insertBy ?cmp) ?P ?F"
    by (simp only: sortedF)
  also have "\<dots> = sortBy ?cmp (filter (\<lambda>r. le (Fin (1/10)) (similarity r)) ?P)
           @ ?F @ sortBy ?cmp (filter (\<lambda>r. gt (Fin (1/10)) (similarity r)) ?P)"
    by (rule foldr_insertBy_around [OF Fne Ft finP])
  also have "filter (\<lambda>r. le (Fin (1/10)) (similarity r)) ?P
               = filter (\<lambda>r. le (Fin (1/10)) (similarity r)) ?B"
    unfolding filter_filter by (rule filter_cong) (auto dest: at_least_positive)
  also have "filter (\<lambda>r. gt (Fin (1/10)) (similarity r)) ?P
               = filter (\<lambda>r. gt (similarity r) (Fin 0) \<and> gt (Fin (1/10)) (similarity r)) ?B"
    unfolding filter_filter by (rule filter_cong) auto
  finally have out: "analyzeIssueSimilarity coerce responses existingIssues =
           sortBy ?cmp (filter (\<lambda>r. le (Fin (1/10)) (similarity r)) ?B)
           @ ?F
           @ sortBy ?cmp (filter (\<lambda>r. gt (similarity r) (Fin 0) \<and> gt (Fin (1/10)) (similarity r)) ?B)" .
  have all: "analyzeIssueSimilarity coerce responses existingIssues = sortBy ?cmp ?B @ ?F
             \<and> length (sortBy ?cmp ?B) = 5 \<and> set (sortBy ?cmp ?B) = set ?B"
    if scores: "\<forall>r\<in>set ?B. le (Fin (1/10)) (similarity r)"
  proof -
    from scores have hi: "filter (\<lambda>r. le (Fin (1/10)) (similarity r)) ?B = ?B"
      by (simp add: filter_id_conv)
    have "\<And>r. r \<in> set ?B \<Longrightarrow> \<not> gt (Fin (1/10)) (similarity r)"
    proof -
      fix r assume "r \<in> set ?B"
      with scores have "le (Fin (1/10)) (similarity r)" by blast
      then show "\<not> gt (Fin (1/10)) (similarity r)" by (cases "similarity r") auto
    qed
    then have lo: "filter (\<lambda>r. gt (similarity r) (Fin 0) \<and> gt (Fin (1/10)) (similarity r)) ?B = []"
      by (auto simp: filter_empty_conv)
    have "analyzeIssueSimilarity coerce responses existingIssues = sortBy ?cmp ?B @ ?F"
      unfolding out hi lo by (simp add: sortBy_def)
    moreover have "length (sortBy ?cmp ?B) = 5"
      using len by (simp add: length_sortBy analyzeBatch_length)
    moreover have "set (sortBy ?cmp ?B) = set ?B" by (rule set_sortBy)
    ultimately show ?thesis by blast
  qed
  have fin: "\<forall>y\<in>set (filter (\<lambda>result. gt (similarity result) (Fin 0))
                 (analyzeLoop coerce responses existingIssues 0 [])). \<exists>v. similarity y = Fin v"
  proof -
    have "\<And>i. \<exists>v. similarity (createFallbackSimilarity i) = Fin v"
      unfolding createFallbackSimilarity_def by (rule exI [of _ "1/10"]) simp
    then have "\<forall>y\<in>set ?F. \<exists>v. similarity y = Fin v"
      by (simp del: ex_simps)
    with finP show ?thesis unfolding loop filter_append keepF by auto
  qed
  have d: "sorted_wrt (\<lambda>a b. \<not> gt (similarity b) (similarity a))
           (analyzeIssueSimilarity coerce responses existingIssues)"
    unfolding analyzeIssueSimilarity_def by (rule sorted_sortBy [OF fin])
  have f: "\<forall>j\<in>{5, 6}.
            key (createFallbackSimilarity (existingIssues ! j)) = issue_key (existingIssues ! j)
            \<and> similarity (createFallbackSimilarity (existingIssues ! j)) = Fin (1/10)
            \<and> reason (createFallbackSimilarity (existingIssues ! j))
                = JStr ''Unable to perform detailed analysis''"
    by (simp add: createFallbackSimilarity_def)
  from out all d f show ?thesis by blast
qed


theorem second_batch_degraded_witness:
  "length [candidate ''K-1'', candidate ''K-2'', candidate ''K-3'', candidate ''K-4'',
           candidate ''K-5'', candidate ''K-6'', candidate ''K-7''] = 7
   \<and> (\<lambda>k::nat. if k = 0 then Parsed (JArr [scored 1 (9/10), scored 2 (3/10), scored 3 (7/10),
                                           scored 4 (1/10), scored 5 (5/10)])
              else CallFails) 1 = CallFails
   \<and> map similarity
       (analyzeBatch (\<lambda>v. NaN)
          (take 5 [candidate ''K-1'', candidate ''K-2'', candidate ''K-3'', candidate ''K-4'',
                   candidate ''K-5'', candidate ''K-6'', candidate ''K-7''])
          (Parsed (JArr [scored 1 (9/10), scored 2 (3/10), scored 3 (7/10),
                         scored 4 (1/10), scored 5 (5/10)])))
       = [Fin (9/10), Fin (3/10), Fin (7/10), Fin (1/10), Fin (5/10)]
   \<and> map (\<lambda>r. (key r, similarity r, reason r))
       (analyzeIssueSimilarity (\<lambda>v. NaN)
          (\<lambda>k. if k = 0 then Parsed (JArr [scored 1 (9/10), scored 2 (3/10), scored 3 (7/10),
                                             scored 4 (1/10), scored 5 (5/10)])
                else CallFails)
          [candidate ''K-1'', candidate ''K-2'', candidate ''K-3'', candidate ''K-4'',
           candidate ''K-5'', candidate ''K-6'', candidate ''K-7''])
       = [(''K-1'', Fin (9/10), JStr ''compared''), (''K-3'', Fin (7/10), JStr ''compared''),
          (''K-5'', Fin (5/10), JStr ''compared''), (''K-2'', Fin (3/10), JStr ''compared''),
          (''K-4'', Fin (1/10), JStr ''compared''),
          (''K-6'', Fin (1/10), JStr ''Unable to perform detailed analysis''),
          (''K-7'', Fin (1/10), JStr ''Unable to perform detailed analysis'')]"
proof -
  let ?cs = "[candidate ''K-1'', candidate ''K-2'', candidate ''K-3'', candidate ''K-4'',
              candidate ''K-5'', candidate ''K-6'', candidate ''K-7'']"
  let ?reply = "Parsed (JArr [scored 1 (9/10), scored 2 (3/10), scored 3 (7/10),
                              scored 4 (1/10), scored 5 (5/10)])"
  let ?rs = "\<lambda>k::nat. if k = 0 then ?reply else CallFails"
  have len: "length ?cs = 7" by simp
  have second: "?rs 1 = CallFails \<or> ?rs 1 = Unparsable" by simp
  have B: "analyzeBatch (\<lambda>v. NaN) (take 5 ?cs) (?rs 0) =
        [\<lparr>key = ''K-1'', summary = ''Login fails'', description = [], status = ''Open'',
           priority = ''Unknown'', similarity = Fin (9/10), reason = JStr ''compared''\<rparr>,
         \<lparr>key = ''K-2'', summary = ''Login fails'', description = [], status = ''Open'',
           priority = ''Unknown'', similarity = Fin (3/10), reason = JStr ''compared''\<rparr>,
         \<lparr>key = ''K-3'', summary = ''Login fails'', description = [], status = ''Open'',
           priority = ''Unknown'', similarity = Fin (7/10), reason = JStr ''compared''\<rparr>,
         \<lparr>key = ''K-4'', summary = ''Login fails'', description = [], status = ''Open'',
           priority = ''Unknown'', similarity = Fin (1/10), reason = JStr ''compared''\<rparr>,
         \<lparr>key = ''K-5'', summary = ''Login fails'', description = [], status = ''Open'',
           priority = ''Unknown'', similarity = Fin (5/10), reason = JStr ''compared''\<rparr>]"
    by (simp add: candidate_def scored_def analyzeBatch_def mapParsed_def analyzeEntry_def
          orElse_def strOr_def)
  have first: "\<forall>r\<in>set (analyzeBatch (\<lambda>v. NaN) (take 5 ?cs) (?rs 0)).
                 le (Fin (1/10)) (similarity r)"
    unfolding B by simp
  from second_batch_degraded
         [where existingIssues = ?cs and responses = ?rs and coerce = "\<lambda>v. NaN",
          OF len second] first
  have "analyzeIssueSimilarity (\<lambda>v. NaN) ?rs ?cs =
           sortBy (\<lambda>a b. minus_number (similarity b) (similarity a))
             (analyzeBatch (\<lambda>v. NaN) (take 5 ?cs) (?rs 0))
           @ [createFallbackSimilarity (?cs ! 5), createFallbackSimilarity (?cs ! 6)]"
    by blast
  then have "map (\<lambda>r. (key r, similarity r, reason r)) (analyzeIssueSimilarity (\<lambda>v. NaN) ?rs ?cs)
       = [(''K-1'', Fin (9/10), JStr ''compared''), (''K-3'', Fin (7/10), JStr ''compared''),
          (''K-5'', Fin (5/10), JStr ''compared''), (''K-2'', Fin (3/10), JStr ''compared''),
          (''K-4'', Fin (1/10), JStr ''compared''),
          (''K-6'', Fin (1/10), JStr ''Unable to perform detailed analysis''),
          (''K-7'', Fin (1/10), JStr ''Unable to perform detailed analysis'')]"
    unfolding B by (simp add: sortBy_def createFallbackSimilarity_def candidate_def strOr_def)
  moreover have "map similarity (analyzeBatch (\<lambda>v. NaN) (take 5 ?cs) ?reply)
       = [Fin (9/10), Fin (3/10), Fin (7/10), Fin (1/10), Fin (5/10)]"
    using B by simp
  ultimately show ?thesis using len by simp
qed

text \<open>
  C8 as the specification states it fails when a first-batch score is below 0.1:
  with first-batch scores 0.9, 0.8, 0.7, 0.05 and 0, the fourth candidate is
  ordered after the two degraded results and the fifth is not in the output.
\<close>

theorem second_batch_order_counterexample:
  "length [candidate ''K-1'', candidate ''K-2'', candidate ''K-3'', candidate ''K-4'',
           candidate ''K-5'', candidate ''K-6'', candidate ''K-7''] = 7
   \<and> map (\<lambda>r. (key r, similarity r))
     (analyzeIssueSimilarity (\<lambda>v. NaN)
        (\<lambda>k. if k = 0 then Parsed (JArr [scored 1 (9/10), scored 2 (8/10), scored 3 (7/10),
                                           scored 4 (1/20), scored 5 0])
              else CallFails)
        [candidate ''K-1'', candidate ''K-2'', candidate ''K-3'', candidate ''K-4'',
         candidate ''K-5'', candidate ''K-6'', candidate ''K-7''])
   = [(''K-1'', Fin (9/10)), (''K-2'', Fin (8/10)), (''K-3'', Fin (7/10)),
      (''K-6'', Fin (1/10)), (''K-7'', Fin (1/10)), (''K-4'', Fin (1/20))]"
  by (simp add: analyzeIssueSimilarity_def analyzeLoop.simps batchSize_def slice_def candidate_def
        scored_def analyzeBatch_def mapParsed_def analyzeEntry_def orElse_def strOr_def sortBy_def
        createFallbackSimilarity_def)



section \<open>The orchestrator's verdict\<close>

lemma generateRecommendations_nonempty: "generateRecommendations issues \<noteq> []"
  by (simp add: generateRecommendations_def Let_def)

text \<open>
  C3. When the search returns candidates and the scorer returns results,
  \<open>checkForDuplicates\<close> keeps exactly the results whose similarity is strictly
  greater than 0.6: a result with similarity exactly 0.6 is excluded, one with
  any finite similarity above 0.6 (such as 0.61) is included, and
  \<open>hasPotentialDuplicates\<close> holds if and only if some result has similarity
  strictly greater than 0.6.
\<close>

theorem strict_threshold:
  assumes "search projectKey title descr = Inr searchResults"
      and "searchResults \<noteq> []"
      and "score (title, descr) searchResults = Inr analysisResults"
  shows "\<exists>a. checkForDuplicatesWith answers h search score projectKey title descr = (Inr a, h)
     \<and> similarIssues a = filter (\<lambda>r. gt (similarity r) (Fin (6/10))) analysisResults
     \<and> (\<forall>r\<in>set analysisResults. similarity r = Fin (6/10) \<longrightarrow> r \<notin> set (similarIssues a))
     \<and> (\<forall>r\<in>set analysisResults. \<forall>x. similarity r = Fin x \<and> 6/10 < x
            \<longrightarrow> r \<in> set (similarIssues a))
     \<and> (hasPotentialDuplicates a \<longleftrightarrow>
          (\<exists>r\<in>set analysisResults. gt (similarity r) (Fin (6/10))))"
  using assms
  by (auto simp: checkForDuplicatesWith_def checkForDuplicatesTry_def Let_def filter_empty_conv)

theorem strict_threshold_witness:
  "(\<lambda>p t d. Inr [candidate ''K-1'', candidate ''K-2''] :: JsError + JiraIssue list)
       ''PRJ'' ''Login fails'' [] = Inr [candidate ''K-1'', candidate ''K-2'']
   \<and> [candidate ''K-1'', candidate ''K-2''] \<noteq> []
   \<and> (case fst (checkForDuplicatesWith (\<lambda>k. ''n'') newErrorHandler
                  (\<lambda>p t d. Inr [candidate ''K-1'', candidate ''K-2''])
                  (\<lambda>n cs. Inr [result ''K-1'' (6/10), result ''K-2'' (61/100)])
                  ''PRJ'' ''Login fails'' []) of
         Inr a \<Rightarrow> hasPotentialDuplicates a \<and> similarIssues a = [result ''K-2'' (61/100)]
       | Inl e \<Rightarrow> False)"
proof -
  let ?search = "\<lambda>p t d. Inr [candidate ''K-1'', candidate ''K-2''] :: JsError + JiraIssue list"
  let ?score = "\<lambda>(n :: string \<times> string) (cs :: JiraIssue list).
                  Inr [result ''K-1'' (6/10), result ''K-2'' (61/100)] :: JsError + SimilarIssue list"
  have s: "?search ''PRJ'' ''Login fails'' [] = Inr [candidate ''K-1'', candidate ''K-2'']"
    by simp
  have n: "[candidate ''K-1'', candidate ''K-2''] \<noteq> []" by simp
  have c: "?score (''Login fails'', []) [candidate ''K-1'', candidate ''K-2'']
             = Inr [result ''K-1'' (6/10), result ''K-2'' (61/100)]" by simp
  from strict_threshold [of ?search "''PRJ''" "''Login fails''" "[]" _ ?score _
                            "\<lambda>k. ''n''" newErrorHandler, OF s n c]
  obtain a where
    a: "checkForDuplicatesWith (\<lambda>k. ''n'') newErrorHandler ?search ?score
           ''PRJ'' ''Login fails'' [] = (Inr a, newErrorHandler)"
    and f: "similarIssues a = filter (\<lambda>r. gt (similarity r) (Fin (6/10)))
                                [result ''K-1'' (6/10), result ''K-2'' (61/100)]"
    and d: "hasPotentialDuplicates a \<longleftrightarrow>
          (\<exists>r\<in>set [result ''K-1'' (6/10), result ''K-2'' (61/100)].
              gt (similarity r) (Fin (6/10)))"
    by blast
  from f have "similarIssues a = [result ''K-2'' (61/100)]" by (simp add: result_def)
  moreover from d have "hasPotentialDuplicates a" by (simp add: result_def)
  ultimately show ?thesis using a n by simp
qed

text \<open>
  C1. For every project key, title and description, every state of the error
  handler, every answer of the user and every behaviour of the search and the
  scorer, throwing included, \<open>checkForDuplicates\<close> returns an analysis with at
  least one recommendation. When the search or the scorer throws, the analysis
  has \<open>hasPotentialDuplicates = false\<close>, no similar issues and the cautionary
  recommendation alone. With the class's own search and scorer in place, whose
  collaborators are the gateway and the generation service, the method returns
  an analysis with at least one recommendation as well, and when both gateway
  requests fail the analysis has \<open>hasPotentialDuplicates = false\<close>.
\<close>

theorem checkForDuplicates_never_raises:
  "(\<exists>a h'. checkForDuplicatesWith answers h search score projectKey title descr = (Inr a, h')
     \<and> recommendations a \<noteq> []
     \<and> ((\<exists>e. search projectKey title descr = Inl e)
          \<or> (\<exists>cs e. search projectKey title descr = Inr cs \<and> cs \<noteq> []
                     \<and> score (title, descr) cs = Inl e)
        \<longrightarrow> \<not> hasPotentialDuplicates a \<and> similarIssues a = []
           \<and> recommendations a = ['' Unable to check for duplicates. Proceed with caution.'']))
   \<and> (\<exists>a. checkForDuplicates coerce answers h response fallbackResponse responses
              projectKey title descr = (Inr a, h)
          \<and> recommendations a \<noteq> []
          \<and> (response \<in> {RequestFails, NotOk} \<and> fallbackResponse \<in> {RequestFails, NotOk}
               \<longrightarrow> \<not> hasPotentialDuplicates a \<and> similarIssues a = []))"
proof (rule conjI)
  show "\<exists>a h'. checkForDuplicatesWith answers h search score projectKey title descr = (Inr a, h')
     \<and> recommendations a \<noteq> []
     \<and> ((\<exists>e. search projectKey title descr = Inl e)
          \<or> (\<exists>cs e. search projectKey title descr = Inr cs \<and> cs \<noteq> []
                     \<and> score (title, descr) cs = Inl e)
        \<longrightarrow> \<not> hasPotentialDuplicates a \<and> similarIssues a = []
           \<and> recommendations a = ['' Unable to check for duplicates. Proceed with caution.''])"
    by (cases "handleError answers h
               (case search projectKey title descr of Inl e \<Rightarrow> e
                | Inr cs \<Rightarrow> (case score (title, descr) cs of Inl e \<Rightarrow> e))
               (Some ''duplicate-detection'')")
       (auto simp: checkForDuplicatesWith_def checkForDuplicatesTry_def Let_def
          generateRecommendations_nonempty split: sum.splits prod.splits)
next
  show "\<exists>a. checkForDuplicates coerce answers h response fallbackResponse responses
              projectKey title descr = (Inr a, h)
          \<and> recommendations a \<noteq> []
          \<and> (response \<in> {RequestFails, NotOk} \<and> fallbackResponse \<in> {RequestFails, NotOk}
               \<longrightarrow> \<not> hasPotentialDuplicates a \<and> similarIssues a = [])"
    by (auto simp: checkForDuplicates_def checkForDuplicatesWith_def checkForDuplicatesTry_def
          Let_def generateRecommendations_nonempty searchSimilarIssues_def fallbackSearch_def)
qed

theorem checkForDuplicates_never_raises_witness:
  "(\<lambda>p t d. Inl (PlainError ''gateway down'') :: JsError + JiraIssue list)
       ''PRJ'' ''Login fails'' [] = Inl (PlainError ''gateway down'')
   \<and> (case fst (checkForDuplicatesWith (\<lambda>k. ''n'') newErrorHandler
                  (\<lambda>p t d. Inl (PlainError ''gateway down''))
                  (\<lambda>n cs. Inl (PlainError ''service down''))
                  ''PRJ'' ''Login fails'' []) of
         Inr a \<Rightarrow> \<not> hasPotentialDuplicates a \<and> similarIssues a = []
                  \<and> recommendations a = ['' Unable to check for duplicates. Proceed with caution.'']
       | Inl e \<Rightarrow> False)
   \<and> RequestFails \<in> {RequestFails, NotOk}
   \<and> (case fst (checkForDuplicates (\<lambda>v. NaN) (\<lambda>k. ''n'') newErrorHandler
                  RequestFails RequestFails (\<lambda>k. CallFails) ''PRJ'' ''Login fails'' []) of
         Inr a \<Rightarrow> \<not> hasPotentialDuplicates a \<and> similarIssues a = [] \<and> recommendations a \<noteq> []
       | Inl e \<Rightarrow> False)"
proof -
  let ?search = "\<lambda>p t d. Inl (PlainError ''gateway down'') :: JsError + JiraIssue list"
  let ?score = "\<lambda>(n :: string \<times> string) (cs :: JiraIssue list).
                  Inl (PlainError ''service down'') :: JsError + SimilarIssue list"
  from checkForDuplicates_never_raises
         [of "\<lambda>k. ''n''" newErrorHandler ?search ?score "''PRJ''" "''Login fails''" "[]"
             "\<lambda>v. NaN" RequestFails RequestFails "\<lambda>k. CallFails"]
  obtain a h' b where
    "checkForDuplicatesWith (\<lambda>k. ''n'') newErrorHandler ?search ?score
        ''PRJ'' ''Login fails'' [] = (Inr a, h')"
    "\<not> hasPotentialDuplicates a \<and> similarIssues a = []
       \<and> recommendations a = ['' Unable to check for duplicates. Proceed with caution.'']"
    "checkForDuplicates (\<lambda>v. NaN) (\<lambda>k. ''n'') newErrorHandler
        RequestFails RequestFails (\<lambda>k. CallFails) ''PRJ'' ''Login fails'' []
       = (Inr b, newErrorHandler)"
    "recommendations b \<noteq> []" "\<not> hasPotentialDuplicates b \<and> similarIssues b = []"
    by auto
  then show ?thesis by simp
qed


section \<open>The keyword fallback\<close>

lemma tokens_Nil: "tokens [] = []"
  by (subst tokens.simps) simp

lemma tokens_space: "isSpace c \<Longrightarrow> tokens (c # cs) = tokens cs"
  by (subst tokens.simps, subst (2) tokens.simps) simp

lemma tokens_word:
  "\<not> isSpace c \<Longrightarrow>
   tokens (c # cs) = (c # takeWhile (\<lambda>x. \<not> isSpace x) cs)
                      # tokens (dropWhile (\<lambda>x. \<not> isSpace x) cs)"
  by (subst tokens.simps) simp

lemma split_ws_struct:
  "split_ws s \<noteq> []
   \<and> hd (split_ws s) = takeWhile (\<lambda>x. \<not> isSpace x) s
   \<and> filter (\<lambda>w. w \<noteq> []) (tl (split_ws s)) = tokens (dropWhile (\<lambda>x. \<not> isSpace x) s)"
proof (induction s)
  case Nil
  show ?case by (simp add: tokens_Nil)
next
  case (Cons c cs)
  from Cons obtain t ts where sp: "split_ws cs = t # ts"
    and t: "t = takeWhile (\<lambda>x. \<not> isSpace x) cs"
    and ts: "filter (\<lambda>w. w \<noteq> []) ts = tokens (dropWhile (\<lambda>x. \<not> isSpace x) cs)"
    by (cases "split_ws cs") auto
  show ?case
  proof (cases "isSpace c")
    case False
    with sp t ts show ?thesis by simp
  next
    case True
    show ?thesis
    proof (cases cs)
      case Nil
      with True show ?thesis by (simp add: tokens_space tokens_Nil)
    next
      case (Cons d ds)
      show ?thesis
      proof (cases "isSpace d")
        case True
        with \<open>isSpace c\<close> Cons sp t ts show ?thesis
          by (simp add: tokens_space)
      next
        case False
        with \<open>isSpace c\<close> Cons sp t ts show ?thesis
          by (simp add: tokens_space tokens_word)
      qed
    qed
  qed
qed

lemma nonempty_pieces: "filter (\<lambda>w. w \<noteq> []) (split_ws s) = tokens s"
proof -
  from split_ws_struct [of s] obtain t ts where sp: "split_ws s = t # ts"
    and t: "t = takeWhile (\<lambda>x. \<not> isSpace x) s"
    and ts: "filter (\<lambda>w. w \<noteq> []) ts = tokens (dropWhile (\<lambda>x. \<not> isSpace x) s)"
    by (cases "split_ws s") auto
  show ?thesis
  proof (cases s)
    case Nil
    with sp t ts show ?thesis by (simp add: tokens_Nil)
  next
    case (Cons c cs)
    with sp t ts show ?thesis
      by (cases "isSpace c") (simp_all add: tokens_word)
  qed
qed

lemma qualifying_pieces:
  "filter (\<lambda>w. length w > 3 \<and> \<not> pureNumber w) (split_ws s)
     = filter (\<lambda>w. length w > 3 \<and> \<not> pureNumber w) (tokens s)"
proof -
  have "filter (\<lambda>w. length w > 3 \<and> \<not> pureNumber w) (tokens s)
          = filter (\<lambda>w. length w > 3 \<and> \<not> pureNumber w) (filter (\<lambda>w. w \<noteq> []) (split_ws s))"
    by (simp only: nonempty_pieces)
  also have "\<dots> = filter (\<lambda>w. length w > 3 \<and> \<not> pureNumber w) (split_ws s)"
    unfolding filter_filter by (rule filter_cong) auto
  finally show ?thesis by simp
qed

text \<open>
  C9. For every title and description, \<open>extractKeywordsFallback\<close> returns the
  first (at most five) white-space separated tokens of the lower-cased text
  \<open>title + ' ' + description\<close> that are longer than 3 characters and not purely
  numeric, and the single token \<open>issue\<close> when no token qualifies. For the title
  \<open>Login fails!!!\<close> and an empty description it returns \<open>login\<close> and
  \<open>fails!!!\<close>.
\<close>

theorem extractKeywordsFallback_heuristic:
  "extractKeywordsFallback title descr = keywordHeuristic title descr
   \<and> length (extractKeywordsFallback title descr) \<le> 5
   \<and> (\<forall>w\<in>set (extractKeywordsFallback title descr).
        w = ''issue'' \<or> (length w > 3 \<and> \<not> pureNumber w))
   \<and> extractKeywordsFallback ''Login fails!!!'' [] = [''login'', ''fails!!!'']"
proof -
  let ?q = "filter (\<lambda>w. length w > 3 \<and> \<not> pureNumber w)
              (tokens (toLowerCase (title @ '' '' @ descr)))"
  have e: "extractKeywordsFallback title descr = (if ?q = [] then [''issue''] else take 5 ?q)"
    by (simp add: extractKeywordsFallback_def Let_def qualifying_pieces)
  then have r: "extractKeywordsFallback title descr = keywordHeuristic title descr"
    by (simp add: keywordHeuristic_def Let_def)
  have l: "length (extractKeywordsFallback title descr) \<le> 5"
    unfolding e by simp
  have m: "\<forall>w\<in>set (extractKeywordsFallback title descr).
        w = ''issue'' \<or> (length w > 3 \<and> \<not> pureNumber w)"
    unfolding e by (auto dest: in_set_takeD)
  have x: "extractKeywordsFallback ''Login fails!!!'' [] = [''login'', ''fails!!!'']"
    by code_simp
  from r l m x show ?thesis by blast
qed

theorem extractKeywordsFallback_heuristic_witness:
  "extractKeywordsFallback ''Payment 2024 API times out at checkout page'' ''see 12345''
     = [''payment'', ''times'', ''checkout'', ''page'']
   \<and> keywordHeuristic ''Payment 2024 API times out at checkout page'' ''see 12345''
     = [''payment'', ''times'', ''checkout'', ''page'']
   \<and> extractKeywordsFallback ''Bug 42'' [] = [''issue'']"
proof -
  have a: "keywordHeuristic ''Payment 2024 API times out at checkout page'' ''see 12345''
     = [''payment'', ''times'', ''checkout'', ''page'']"
    by code_simp
  have b: "keywordHeuristic ''Bug 42'' [] = [''issue'']"
    by code_simp
  from extractKeywordsFallback_heuristic
         [of "''Payment 2024 API times out at checkout page''" "''see 12345''"]
       extractKeywordsFallback_heuristic [of "''Bug 42''" "[]"] a b
  show ?thesis by simp
qed


end
